theory Spec2Isabelle
  imports Complex_Main "HOL-Library.Multiset"
begin

section \<open>Data model of \<open>Table.tsx\<close>\<close>

text \<open>
  The component \<open>EnhancedPostTable\<close> keeps nine state slots and receives eight props.
  A \<open>Post\<close> is an object with string keys and values of any type; it is represented by
  its fields in the order \<open>Object.keys\<close> enumerates them (keys of one object are
  distinct). The type of the field values is the parameter \<open>'v\<close>; reading a key the
  object does not have gives \<open>undefined\<close>, here \<open>None\<close>.
\<close>

type_synonym 'v post = "(string \<times> 'v) list"

definition object_keys :: "'v post \<Rightarrow> string list" where
  "object_keys p = map fst p"

definition field :: "'v post \<Rightarrow> string \<Rightarrow> 'v option" where
  "field p k = map_of p k"

record column =
  key :: string
  label :: string
  visible :: bool

record props =
  tableName :: string
  apiEndpoint :: string
  isFilter :: bool
  isSearch :: bool
  isSort :: bool
  isPagination :: bool
  pagePerRecord :: int
  columnToogle :: bool

datatype direction = Asc | Desc

text \<open>
  A JavaScript number that holds a page number or a page count: an integer, \<open>NaN\<close>
  (what \<open>parseInt\<close> returns on a string without digits) or an infinity (a division by
  zero). Integers are exact here; the source's doubles agree with them below \<open>2^53\<close>,
  and the sign of zero is not kept.
\<close>

datatype jsnum = Fin int | NaN | PosInf | NegInf

text \<open>
  What \<open>response.json()\<close> can return: any JSON value. Numbers are integers here, and the
  fields of an object are the opaque field values of a post.
\<close>

datatype 'v body =
    JNull
  | JBoolean bool
  | JNumber int
  | JString string
  | JArray "'v body list"
  | JObject "'v post"

text \<open>
  The nine state slots. The slot \<open>results\<close> is declared \<open>Post[]\<close>, and \<open>setResults\<close> stores
  in it whatever it is given, so the record leaves the type of that slot open: a
  \<open>'v state\<close> holds an array of posts there, which is what \<open>handleSort\<close> reads, and a
  \<open>'v body slots\<close> holds the last decoded body, whatever it was.
\<close>

record 'r slots =
  results :: 'r
  currentPage :: jsnum
  totalPages :: jsnum
  titleFilter :: string
  bodyFilter :: string
  sortColumn :: "string option"
  sortDirection :: direction
  columns :: "column list"
  isLoading :: bool

type_synonym 'v state = "'v post list slots"

text \<open>The same slots with another value in \<open>results\<close>.\<close>

definition with_results :: "'b \<Rightarrow> 'a slots \<Rightarrow> 'b slots" where
  "with_results r st =
     \<lparr>results = r, currentPage = currentPage st, totalPages = totalPages st,
      titleFilter = titleFilter st, bodyFilter = bodyFilter st, sortColumn = sortColumn st,
      sortDirection = sortDirection st, columns = columns st, isLoading = isLoading st\<rparr>"

text \<open>
  An array of posts as a decoded body, and back: a body is an array of posts when it is an
  array and each of its elements is an object.
\<close>

definition untyped :: "'v state \<Rightarrow> 'v body slots" where
  "untyped st = with_results (JArray (map JObject (results st))) st"

fun posts_of_elements :: "'v body list \<Rightarrow> 'v post list option" where
  "posts_of_elements [] = Some []"
| "posts_of_elements (JObject p # xs) = map_option ((#) p) (posts_of_elements xs)"
| "posts_of_elements (_ # xs) = None"

fun posts_of :: "'v body \<Rightarrow> 'v post list option" where
  "posts_of (JArray xs) = posts_of_elements xs"
| "posts_of _ = None"

definition typed :: "'v body slots \<Rightarrow> 'v state option" where
  "typed st = map_option (\<lambda>ps. with_results ps st) (posts_of (results st))"

text \<open>The values the \<open>useState\<close> calls start from.\<close>

definition initial_state :: "'v state" where
  "initial_state =
     \<lparr>results = [], currentPage = Fin 1, totalPages = Fin 0, titleFilter = [],
      bodyFilter = [], sortColumn = None, sortDirection = Asc, columns = [],
      isLoading = False\<rparr>"

datatype error = FetchRejected | BodyNotJson | TypeError | UndefinedColumn

section \<open>Numbers and strings of the host language\<close>

fun js_plus :: "jsnum \<Rightarrow> int \<Rightarrow> jsnum" where
  "js_plus (Fin n) k = Fin (n + k)"
| "js_plus NaN k = NaN"
| "js_plus PosInf k = PosInf"
| "js_plus NegInf k = NegInf"

text \<open>The order of numbers; every comparison with \<open>NaN\<close> is false.\<close>

fun js_less :: "jsnum \<Rightarrow> jsnum \<Rightarrow> bool" where
  "js_less (Fin a) (Fin b) = (a < b)"
| "js_less (Fin a) PosInf = True"
| "js_less NegInf (Fin b) = True"
| "js_less NegInf PosInf = True"
| "js_less _ _ = False"

definition math_max :: "jsnum \<Rightarrow> jsnum \<Rightarrow> jsnum" where
  "math_max a b = (if a = NaN \<or> b = NaN then NaN else if js_less a b then b else a)"

definition math_min :: "jsnum \<Rightarrow> jsnum \<Rightarrow> jsnum" where
  "math_min a b = (if a = NaN \<or> b = NaN then NaN else if js_less b a then b else a)"

text \<open>
  \<open>Math.ceil(x / y)\<close> for an integer divisor \<open>y\<close>. The quotient of two integers is
  rounded up with the floor division of HOL: \<open>- ((- n) div y)\<close>. A zero divisor gives
  \<open>NaN\<close> for \<open>0 / 0\<close> and an infinity otherwise.
\<close>

fun ceil_div :: "jsnum \<Rightarrow> int \<Rightarrow> jsnum" where
  "ceil_div (Fin n) y =
     (if y = 0 then (if n = 0 then NaN else if 0 < n then PosInf else NegInf)
      else Fin (- ((- n) div y)))"
| "ceil_div NaN y = NaN"
| "ceil_div PosInf y = (if y < 0 then NegInf else PosInf)"
| "ceil_div NegInf y = (if y < 0 then PosInf else NegInf)"

definition digit_char :: "nat \<Rightarrow> char" where
  "digit_char d = ''0123456789'' ! d"

fun decimal :: "nat \<Rightarrow> string" where
  "decimal n = (if n < 10 then [digit_char n] else decimal (n div 10) @ [digit_char (n mod 10)])"

declare decimal.simps [simp del]

definition int_to_string :: "int \<Rightarrow> string" where
  "int_to_string i = (if i < 0 then CHR ''-'' # decimal (nat (- i)) else decimal (nat i))"

text \<open>What a template literal writes for a number.\<close>

fun num_to_string :: "jsnum \<Rightarrow> string" where
  "num_to_string (Fin i) = int_to_string i"
| "num_to_string NaN = ''NaN''"
| "num_to_string PosInf = ''Infinity''"
| "num_to_string NegInf = ''-Infinity''"

text \<open>
  \<open>parseInt(s, 10)\<close>: leading white space is skipped, one sign is read, then the longest
  run of decimal digits; without a digit the result is \<open>NaN\<close>. A header value is a
  byte string, so the white space characters are those below 256.
\<close>

definition is_white_space :: "char \<Rightarrow> bool" where
  "is_white_space c = (c \<in> set [CHR 0x09, CHR 0x0A, CHR 0x0B, CHR 0x0C, CHR 0x0D, CHR 0x20, CHR 0xA0])"

definition digit_value :: "char \<Rightarrow> nat option" where
  "digit_value c = map_of (zip ''0123456789'' [0, 1, 2, 3, 4, 5, 6, 7, 8, 9]) c"

definition is_digit :: "char \<Rightarrow> bool" where
  "is_digit c = (digit_value c \<noteq> None)"

definition digits_value :: "string \<Rightarrow> nat" where
  "digits_value ds = foldl (\<lambda>acc c. 10 * acc + (case digit_value c of Some d \<Rightarrow> d | None \<Rightarrow> 0)) 0 ds"

definition parseInt :: "string \<Rightarrow> jsnum" where
  "parseInt s =
     (let s1 = dropWhile is_white_space s;
          negative = (case s1 of c # _ \<Rightarrow> c = CHR ''-'' | [] \<Rightarrow> False);
          s2 = (case s1 of c # r \<Rightarrow> if c = CHR ''-'' \<or> c = CHR ''+'' then r else s1 | [] \<Rightarrow> s1);
          ds = takeWhile is_digit s2
      in if ds = [] then NaN
         else if negative then Fin (- int (digits_value ds)) else Fin (int (digits_value ds)))"

text \<open>
  \<open>toUpperCase\<close> on the ASCII letters; every other character of an ASCII key is left
  as it is.
\<close>

definition upper_char :: "char \<Rightarrow> char" where
  "upper_char c =
     (case map_of (zip ''abcdefghijklmnopqrstuvwxyz'' ''ABCDEFGHIJKLMNOPQRSTUVWXYZ'') c of
        Some u \<Rightarrow> u | None \<Rightarrow> c)"

definition toUpperCase :: "string \<Rightarrow> string" where
  "toUpperCase s = map upper_char s"

text \<open>
  \<open>Array.prototype.sort\<close> with a comparison function: a stable sort, in which \<open>a\<close>
  stays in front of \<open>b\<close> unless the comparison of \<open>a\<close> with \<open>b\<close> is positive.
\<close>

fun sort_insert :: "('a \<Rightarrow> 'a \<Rightarrow> int) \<Rightarrow> 'a \<Rightarrow> 'a list \<Rightarrow> 'a list" where
  "sort_insert cmp x [] = [x]"
| "sort_insert cmp x (y # ys) = (if cmp x y \<le> 0 then x # y # ys else y # sort_insert cmp x ys)"

fun array_sort :: "('a \<Rightarrow> 'a \<Rightarrow> int) \<Rightarrow> 'a list \<Rightarrow> 'a list" where
  "array_sort cmp [] = []"
| "array_sort cmp (x # xs) = sort_insert cmp x (array_sort cmp xs)"

text \<open>
  \<open>Array.prototype.splice\<close>: a negative start counts from the end, and the start is
  clamped to the array. \<open>splice(start, 1)\<close> removes the element at the start, when there
  is one, and returns it; \<open>splice(start, 0, x)\<close> inserts \<open>x\<close> there.
\<close>

definition splice_start :: "int \<Rightarrow> nat \<Rightarrow> nat" where
  "splice_start start len =
     (if start < 0 then nat (max (int len + start) 0) else min (nat start) len)"

definition splice_delete1 :: "int \<Rightarrow> 'a list \<Rightarrow> 'a option \<times> 'a list" where
  "splice_delete1 start xs =
     (let s = splice_start start (length xs)
      in (if s < length xs then Some (xs ! s) else None, take s xs @ drop (Suc s) xs))"

definition splice_insert :: "int \<Rightarrow> 'a \<Rightarrow> 'a list \<Rightarrow> 'a list" where
  "splice_insert start x xs =
     (let s = splice_start start (length xs) in take s xs @ x # drop s xs)"

section \<open>The page fetch\<close>

text \<open>
  What the network answers to one request: the promise of \<open>fetch\<close> rejects, or the
  promise of \<open>response.json()\<close> rejects, or the body decodes to some JSON value, read
  together with the header \<open>x-total-count\<close> (\<open>None\<close> when the response has none).
\<close>

datatype 'v fetch_outcome =
    NetworkFailure
  | UndecodableBody
  | Resolved "'v body" "string option"

text \<open>
  The field values of an object are opaque. When the body is an object, not an array,
  the fetch applies two operations of the host language to field values: \<open>v > 0\<close> to
  the value of its own property \<open>length\<close>, and \<open>Object.keys(v)\<close>, which throws on null,
  to the value of its own property \<open>0\<close>. Both are given.
\<close>

record 'v host =
  gtZero :: "'v \<Rightarrow> bool"
  keysOf :: "'v \<Rightarrow> error + string list"

text \<open>
  \<open>Object.keys\<close> of a decoded value: it throws on null, a number or a boolean has no
  own keys, and a string or an array has its indices.
\<close>

definition index_keys :: "nat \<Rightarrow> string list" where
  "index_keys n = map decimal [0..<n]"

fun own_keys :: "'v body \<Rightarrow> error + string list" where
  "own_keys JNull = Inl TypeError"
| "own_keys (JBoolean b) = Inr []"
| "own_keys (JNumber n) = Inr []"
| "own_keys (JString s) = Inr (index_keys (length s))"
| "own_keys (JArray xs) = Inr (index_keys (length xs))"
| "own_keys (JObject p) = Inr (object_keys p)"

text \<open>
  \<open>data.length > 0\<close>: reading a property of null throws; a number or a boolean has no
  \<open>length\<close>, and \<open>undefined > 0\<close> is false; an object has the \<open>length\<close> its fields give it.
\<close>

fun length_positive :: "'v host \<Rightarrow> 'v body \<Rightarrow> error + bool" where
  "length_positive hs JNull = Inl TypeError"
| "length_positive hs (JBoolean b) = Inr False"
| "length_positive hs (JNumber n) = Inr False"
| "length_positive hs (JString s) = Inr (s \<noteq> [])"
| "length_positive hs (JArray xs) = Inr (xs \<noteq> [])"
| "length_positive hs (JObject p) =
     Inr (case field p ''length'' of None \<Rightarrow> False | Some v \<Rightarrow> gtZero hs v)"

text \<open>
  \<open>Object.keys(data[0])\<close>: the first element of an array, the first character of a
  string (a string of length 1, with the one index), the own property \<open>0\<close> of an
  object; where \<open>data[0]\<close> is \<open>undefined\<close>, \<open>Object.keys\<close> throws.
\<close>

fun first_keys :: "'v host \<Rightarrow> 'v body \<Rightarrow> error + string list" where
  "first_keys hs JNull = Inl TypeError"
| "first_keys hs (JBoolean b) = Inl TypeError"
| "first_keys hs (JNumber n) = Inl TypeError"
| "first_keys hs (JString []) = Inl TypeError"
| "first_keys hs (JString (c # cs)) = Inr (index_keys 1)"
| "first_keys hs (JArray []) = Inl TypeError"
| "first_keys hs (JArray (x # xs)) = own_keys x"
| "first_keys hs (JObject p) =
     (case field p ''0'' of None \<Rightarrow> Inl TypeError | Some v \<Rightarrow> keysOf hs v)"

definition requestUrl :: "props \<Rightarrow> jsnum \<Rightarrow> string" where
  "requestUrl p page =
     apiEndpoint p @ ''?_page='' @ num_to_string page @ ''&_limit='' @ int_to_string (pagePerRecord p)"

text \<open>\<open>response.headers.get("x-total-count") || "0"\<close>: null and the empty string are falsy.\<close>

definition header_or_zero :: "string option \<Rightarrow> string" where
  "header_or_zero h = (case h of None \<Rightarrow> ''0'' | Some s \<Rightarrow> if s = [] then ''0'' else s)"

text \<open>
  The body of the \<open>try\<close> block: the error it throws, if any, and the state the setters
  have left by then. A rejected promise throws before any setter; \<open>data.length\<close> and
  \<open>Object.keys(data[0])\<close> throw after \<open>setResults\<close> and \<open>setTotalPages\<close>.
\<close>

definition tryBlock ::
  "'v host \<Rightarrow> props \<Rightarrow> 'v fetch_outcome \<Rightarrow> 'v body slots \<Rightarrow> error option \<times> 'v body slots" where
  "tryBlock hs p outcome st =
     (case outcome of
        NetworkFailure \<Rightarrow> (Some FetchRejected, st)
      | UndecodableBody \<Rightarrow> (Some BodyNotJson, st)
      | Resolved data header \<Rightarrow>
          (let st1 = st\<lparr>results := data\<rparr>;
               totalCount = parseInt (header_or_zero header);
               st2 = st1\<lparr>totalPages := ceil_div totalCount (pagePerRecord p)\<rparr>
           in case length_positive hs data of
                Inl e \<Rightarrow> (Some e, st2)
              | Inr positive \<Rightarrow>
                  if positive
                  then (case first_keys hs data of
                          Inl e \<Rightarrow> (Some e, st2)
                        | Inr ks \<Rightarrow>
                            (None,
                             st2\<lparr>columns :=
                               map (\<lambda>k. \<lparr>key = k, label = toUpperCase k, visible = True\<rparr>) ks\<rparr>))
                  else (None, st2)))"

text \<open>
  \<open>fetchResults\<close> run to its end against one answer of the network: the URL it
  requests and the state it leaves. The \<open>catch\<close> clause only logs, so an error leaves
  the state of the moment it was thrown; \<open>finally\<close> clears the flag.
\<close>

definition fetchResults ::
  "'v host \<Rightarrow> props \<Rightarrow> jsnum \<Rightarrow> 'v fetch_outcome \<Rightarrow> 'v body slots \<Rightarrow> string \<times> 'v body slots" where
  "fetchResults hs p page outcome st =
     (let st0 = st\<lparr>isLoading := True\<rparr>;
          url = requestUrl p page;
          st1 = snd (tryBlock hs p outcome st0)
      in (url, st1\<lparr>isLoading := False\<rparr>))"

text \<open>
  The effect on \<open>[currentPage, pagePerRecord]\<close>: after a render in which the page
  number differs from the one before, \<open>fetchResults(currentPage)\<close> runs. The props are
  fixed, so only the page number can differ.
\<close>

definition pageEffect ::
  "'v host \<Rightarrow> props \<Rightarrow> 'v fetch_outcome \<Rightarrow> 'r slots \<Rightarrow> 'v body slots \<Rightarrow> string list \<times> 'v body slots" where
  "pageEffect hs p outcome before st =
     (if currentPage st = currentPage before then ([], st)
      else (let (url, st') = fetchResults hs p (currentPage st) outcome st in ([url], st')))"

section \<open>The handlers\<close>

text \<open>
  The comparison function handed to \<open>sort\<close>. The relation \<open>lt\<close> is the operator \<open><\<close>
  of the host language on two field values; \<open>a > b\<close> is \<open>b < a\<close>.
\<close>

definition compareFn ::
  "('v option \<Rightarrow> 'v option \<Rightarrow> bool) \<Rightarrow> direction \<Rightarrow> string \<Rightarrow> 'v post \<Rightarrow> 'v post \<Rightarrow> int" where
  "compareFn lt dir col a b =
     (if lt (field a col) (field b col) then (if dir = Asc then - 1 else 1)
      else if lt (field b col) (field a col) then (if dir = Asc then 1 else - 1)
      else 0)"

text \<open>
  \<open>handleSort\<close> reads \<open>sortColumn\<close>, \<open>sortDirection\<close> and \<open>results\<close> of the render it
  was created in: the comparison uses the direction from before the click.
\<close>

definition handleSort ::
  "('v option \<Rightarrow> 'v option \<Rightarrow> bool) \<Rightarrow> props \<Rightarrow> string \<Rightarrow> 'v state \<Rightarrow> 'v state" where
  "handleSort lt p col st =
     (if \<not> isSort p then st
      else
        (let st1 = (if sortColumn st = Some col
                    then st\<lparr>sortDirection := (if sortDirection st = Asc then Desc else Asc)\<rparr>
                    else st\<lparr>sortColumn := Some col, sortDirection := Asc\<rparr>);
             sorted = array_sort (compareFn lt (sortDirection st) col) (results st)
         in st1\<lparr>results := sorted\<rparr>))"

definition toggleColumnVisibility :: "props \<Rightarrow> string \<Rightarrow> 'r slots \<Rightarrow> 'r slots" where
  "toggleColumnVisibility p k st =
     (if \<not> columnToogle p then st
      else st\<lparr>columns := map (\<lambda>c. if key c = k then c\<lparr>visible := \<not> visible c\<rparr> else c) (columns st)\<rparr>)"

text \<open>
  \<open>applyFilter\<close> with the fetch it starts run to its end: the URLs requested and the
  state left.
\<close>

definition applyFilter ::
  "'v host \<Rightarrow> props \<Rightarrow> 'v fetch_outcome \<Rightarrow> 'v body slots \<Rightarrow> string list \<times> 'v body slots" where
  "applyFilter hs p outcome st =
     (if \<not> isFilter p then ([], st)
      else (let (url, st') = fetchResults hs p (Fin 1) outcome (st\<lparr>currentPage := Fin 1\<rparr>)
            in ([url], st')))"

text \<open>
  The drop event of the drag library: the index the column was taken from, and the
  index it was dropped at, absent when it was dropped outside the list.
\<close>

record draggable_location =
  index :: int

record drop_result =
  source :: draggable_location
  destination :: "draggable_location option"

text \<open>
  When the first \<open>splice\<close> removes nothing, \<open>reorderedColumn\<close> is \<open>undefined\<close> and the
  array handed to \<open>setColumns\<close> holds it; that array is no list of columns, and the
  render that follows fails on reading a field of it: the result \<open>Inl UndefinedColumn\<close>.
\<close>

definition onDragEnd :: "props \<Rightarrow> drop_result \<Rightarrow> 'r slots \<Rightarrow> error + 'r slots" where
  "onDragEnd p result st =
     (case destination result of
        None \<Rightarrow> Inr st
      | Some dest \<Rightarrow>
          if \<not> columnToogle p then Inr st
          else
            (case splice_delete1 (index (source result)) (columns st) of
               (None, newColumns) \<Rightarrow> Inl UndefinedColumn
             | (Some reorderedColumn, newColumns) \<Rightarrow>
                 Inr (st\<lparr>columns := splice_insert (index dest) reorderedColumn newColumns\<rparr>)))"

text \<open>
  The handlers of the previous-page and next-page buttons, and the condition under
  which each button is disabled.
\<close>

definition previousPage :: "'r slots \<Rightarrow> 'r slots" where
  "previousPage st = st\<lparr>currentPage := math_max (js_plus (currentPage st) (- 1)) (Fin 1)\<rparr>"

definition nextPage :: "'r slots \<Rightarrow> 'r slots" where
  "nextPage st = st\<lparr>currentPage := math_min (js_plus (currentPage st) 1) (totalPages st)\<rparr>"

definition previousDisabled :: "'r slots \<Rightarrow> bool" where
  "previousDisabled st = (currentPage st = Fin 1 \<or> isLoading st)"

definition nextDisabled :: "'r slots \<Rightarrow> bool" where
  "nextDisabled st = (currentPage st = totalPages st \<or> isLoading st)"

datatype page_action = Previous | Next

fun paginate :: "page_action \<Rightarrow> 'r slots \<Rightarrow> 'r slots" where
  "paginate Previous st = previousPage st"
| "paginate Next st = nextPage st"

fun paginate_all :: "page_action list \<Rightarrow> 'r slots \<Rightarrow> 'r slots" where
  "paginate_all [] st = st"
| "paginate_all (a # as) st = paginate_all as (paginate a st)"

text \<open>The relation \<open><\<close> on fields that hold integers; a missing field is \<open>undefined\<close>,
  which compares false with everything.\<close>

fun int_lt :: "int option \<Rightarrow> int option \<Rightarrow> bool" where
  "int_lt (Some a) (Some b) = (a < b)"
| "int_lt _ _ = False"


section \<open>Notions used in the properties\<close>

text \<open>The relation \<open>\<le>\<close> of numbers, and a page number inside \<open>[1, totalPages]\<close>.\<close>

fun js_le :: "jsnum \<Rightarrow> jsnum \<Rightarrow> bool" where
  "js_le (Fin a) (Fin b) = (a \<le> b)"
| "js_le (Fin a) PosInf = True"
| "js_le NegInf (Fin b) = True"
| "js_le NegInf NegInf = True"
| "js_le NegInf PosInf = True"
| "js_le PosInf PosInf = True"
| "js_le _ _ = False"

definition page_in_range :: "'r slots \<Rightarrow> bool" where
  "page_in_range st = (js_le (Fin 1) (currentPage st) \<and> js_le (currentPage st) (totalPages st))"

text \<open>An array without the element at one index.\<close>

definition without :: "nat \<Rightarrow> 'a list \<Rightarrow> 'a list" where
  "without i xs = take i xs @ drop (Suc i) xs"

text \<open>Props and states used to run the handlers on concrete inputs.\<close>

definition example_props :: props where
  "example_props =
     \<lparr>tableName = ''posts'', apiEndpoint = ''/api/posts'', isFilter = True, isSearch = False,
      isSort = True, isPagination = True, pagePerRecord = 10, columnToogle = True\<rparr>"

definition locked_props :: props where
  "locked_props = example_props\<lparr>isFilter := False, isSort := False, columnToogle := False\<rparr>"

definition example_page :: "int post list" where
  "example_page =
     [[(''id'', 2), (''userId'', 7), (''rank'', 5)],
      [(''id'', 1), (''userId'', 9), (''rank'', 5)],
      [(''id'', 3), (''userId'', 8), (''rank'', 4)]]"

text \<open>
  On integers, \<open>v > 0\<close> is the order of the integers and \<open>Object.keys(v)\<close> is empty.
\<close>

definition int_host :: "int host" where
  "int_host = \<lparr>gtZero = (\<lambda>v. 0 < v), keysOf = (\<lambda>v. Inr [])\<rparr>"

definition example_body :: "int body" where
  "example_body = JArray (map JObject example_page)"

text \<open>
  The state after the first fetch has answered with the example page, and the state
  after the first fetch has failed; both hold an array of posts.
\<close>

definition fetched_state :: "int state" where
  "fetched_state =
     (case typed (snd (fetchResults int_host example_props (Fin 1)
                         (Resolved example_body (Some ''25'')) (untyped initial_state))) of
        Some st \<Rightarrow> st
      | None \<Rightarrow> initial_state)"

definition offline_state :: "int state" where
  "offline_state =
     (case typed (snd (fetchResults int_host example_props (Fin 1) NetworkFailure
                         (untyped initial_state))) of
        Some st \<Rightarrow> st
      | None \<Rightarrow> initial_state)"


section \<open>Helper lemmas\<close>

lemma mset_sort_insert: "mset (sort_insert cmp x xs) = add_mset x (mset xs)"
  by (induction xs) simp_all

lemma mset_array_sort: "mset (array_sort cmp xs) = mset xs"
  by (induction xs) (simp_all add: mset_sort_insert)

lemma posts_of_elements_objects: "posts_of_elements (map JObject ps) = Some ps"
  by (induction ps) simp_all

text \<open>A state that holds an array of posts is read back from its untyped form.\<close>

lemma typed_untyped: "typed (untyped st) = Some st"
  by (simp add: typed_def untyped_def with_results_def posts_of_elements_objects)

lemma int_to_string_one: "int_to_string 1 = ''1''"
  by (simp add: int_to_string_def decimal.simps digit_char_def)

lemma totalPages_fetch:
  "totalPages (snd (fetchResults hs p page (Resolved data h) st))
     = ceil_div (parseInt (header_or_zero h)) (pagePerRecord p)"
  by (simp add: fetchResults_def tryBlock_def Let_def split: sum.split)

lemma currentPage_tryBlock:
  "currentPage (snd (tryBlock hs p outcome st)) = currentPage st"
  by (simp add: tryBlock_def Let_def split: fetch_outcome.split sum.split)

lemma columns_after_throw:
  "fst (tryBlock hs p outcome st) \<noteq> None \<Longrightarrow> columns (snd (tryBlock hs p outcome st)) = columns st"
  by (simp add: tryBlock_def Let_def split: fetch_outcome.splits sum.splits if_splits)

lemma ceil_div_ceiling:
  "y \<noteq> 0 \<Longrightarrow> ceil_div (Fin n) y = Fin \<lceil>real_of_int n / real_of_int y\<rceil>"
  by (simp add: ceiling_divide_eq_div)

text \<open>
  Two calls of \<open>handleSort\<close> on a column that was not the active one: the first sort
  compares with the direction the state had, the second one with \<open>asc\<close>.
\<close>

lemma handleSort_twice:
  assumes "isSort p" and "sortColumn st \<noteq> Some col"
  shows "results (handleSort lt p col (handleSort lt p col st))
     = array_sort (compareFn lt Asc col)
         (array_sort (compareFn lt (sortDirection st) col) (results st))"
  using assms by (simp add: handleSort_def Let_def)

subsection \<open>Reading back a decimal numeral\<close>

lemma digit_value_digit_char: "d < 10 \<Longrightarrow> digit_value (digit_char d) = Some d"
proof -
  assume "d < 10"
  then have "d \<in> {0, 1, 2, 3, 4, 5, 6, 7, 8, 9}" by auto
  then show ?thesis by (auto simp add: digit_value_def digit_char_def)
qed

lemma digit_value_plain:
  "digit_value c = Some d \<Longrightarrow> \<not> is_white_space c \<and> c \<noteq> CHR ''-'' \<and> c \<noteq> CHR ''+''"
  by (auto simp add: digit_value_def is_white_space_def split: if_splits)

lemma digits_value_snoc:
  "digits_value (ds @ [c])
     = 10 * digits_value ds + (case digit_value c of Some d \<Rightarrow> d | None \<Rightarrow> 0)"
  by (simp add: digits_value_def)

lemma decimal_digits:
  "list_all is_digit (decimal n) \<and> decimal n \<noteq> [] \<and> digits_value (decimal n) = n"
proof (induction n rule: decimal.induct)
  case (1 n)
  show ?case
  proof (cases "n < 10")
    case True
    then show ?thesis
      by (simp add: decimal.simps [of n] is_digit_def digit_value_digit_char digits_value_def)
  next
    case False
    with 1 have ih: "list_all is_digit (decimal (n div 10))" "decimal (n div 10) \<noteq> []"
      "digits_value (decimal (n div 10)) = n div 10" by simp_all
    have last_value: "digit_value (digit_char (n mod 10)) = Some (n mod 10)"
      by (simp add: digit_value_digit_char)
    then have last_digit: "is_digit (digit_char (n mod 10))" by (simp add: is_digit_def)
    from False ih last_value last_digit show ?thesis
      by (simp add: decimal.simps [of n] digits_value_snoc)
  qed
qed

lemma parseInt_digits:
  assumes "list_all is_digit ds" and "ds \<noteq> []"
  shows "parseInt ds = Fin (int (digits_value ds))"
proof -
  from assms obtain c r where ds: "ds = c # r" by (cases ds) auto
  with assms(1) obtain d where d: "digit_value c = Some d" by (auto simp add: is_digit_def)
  from digit_value_plain [OF d]
  have plain: "\<not> is_white_space c" "c \<noteq> CHR ''-''" "c \<noteq> CHR ''+''" by simp_all
  have all_taken: "takeWhile is_digit ds = ds" using assms(1) by (simp add: list_all_iff)
  have none_dropped: "dropWhile is_white_space ds = ds" using ds plain by simp
  show ?thesis
    unfolding parseInt_def none_dropped Let_def using ds plain all_taken by simp
qed

lemma parseInt_decimal: "parseInt (decimal n) = Fin (int n)"
  using decimal_digits [of n] parseInt_digits [of "decimal n"] by simp

subsection \<open>Pagination\<close>

lemma paginate_keeps_range:
  assumes "totalPages st = Fin n" "currentPage st = Fin c" "1 \<le> c" "c \<le> n"
  shows "\<exists>c'. currentPage (paginate a st) = Fin c' \<and> 1 \<le> c' \<and> c' \<le> n
            \<and> totalPages (paginate a st) = Fin n"
  using assms
  by (cases a) (auto simp add: previousPage_def nextPage_def math_max_def math_min_def)

lemma paginate_all_keeps_range:
  "totalPages st = Fin n \<Longrightarrow> currentPage st = Fin c \<Longrightarrow> 1 \<le> c \<Longrightarrow> c \<le> n \<Longrightarrow>
   \<exists>c'. currentPage (paginate_all acts st) = Fin c' \<and> 1 \<le> c' \<and> c' \<le> n
        \<and> totalPages (paginate_all acts st) = Fin n"
proof (induction acts arbitrary: st c)
  case Nil
  then show ?case by simp
next
  case (Cons a acts)
  from paginate_keeps_range [OF Cons.prems, of a]
  obtain c' where step: "currentPage (paginate a st) = Fin c'" "1 \<le> c'" "c' \<le> n"
      "totalPages (paginate a st) = Fin n"
    by blast
  from Cons.IH [OF step(4) step(1) step(2) step(3)] show ?case by simp
qed

subsection \<open>Splicing inside the array\<close>

lemma splice_start_inside: "0 \<le> i \<Longrightarrow> nat i \<le> n \<Longrightarrow> splice_start i n = nat i"
  by (simp add: splice_start_def)

lemma length_without: "i < length xs \<Longrightarrow> length (without i xs) = length xs - 1"
  by (simp add: without_def)

lemma without_insert: "j \<le> length ys \<Longrightarrow> without j (take j ys @ x # drop j ys) = ys"
  by (simp add: without_def)

lemma nth_insert: "j \<le> length ys \<Longrightarrow> (take j ys @ x # drop j ys) ! j = x"
  by (simp add: nth_append)

section \<open>Properties of the table\<close>

text \<open>
  C1. The first click on a header sorts the fetched page ascending by that column, but
  the second click on the same header does not sort it descending. On the page with ids
  2, 1, 3 and no active sort, one click on \<open>id\<close> gives 1, 2, 3; the second click sets
  the direction state to \<open>desc\<close> and leaves the records at 1, 2, 3, because the
  comparison still reads the direction of the render before the click.
\<close>

theorem handleSort_second_click_stays_ascending:
  "sortColumn fetched_state = None
   \<and> isSort example_props
   \<and> results (handleSort int_lt example_props ''id'' fetched_state)
       = [[(''id'', 1), (''userId'', 9), (''rank'', 5)],
          [(''id'', 2), (''userId'', 7), (''rank'', 5)],
          [(''id'', 3), (''userId'', 8), (''rank'', 4)]]
   \<and> sortDirection (handleSort int_lt example_props ''id''
         (handleSort int_lt example_props ''id'' fetched_state)) = Desc
   \<and> results (handleSort int_lt example_props ''id''
         (handleSort int_lt example_props ''id'' fetched_state))
       = [[(''id'', 1), (''userId'', 9), (''rank'', 5)],
          [(''id'', 2), (''userId'', 7), (''rank'', 5)],
          [(''id'', 3), (''userId'', 8), (''rank'', 4)]]"
  by code_simp

text \<open>
  C2, amended. When \<open>totalPages\<close> is an integer of at least 1, every sequence of
  previous-page and next-page actions that starts at \<open>currentPage = 1\<close> keeps
  \<open>currentPage\<close> inside \<open>[1, totalPages]\<close>, and leaves \<open>totalPages\<close> as it is.
\<close>

theorem pagination_stays_in_range:
  assumes "totalPages st = Fin n" and "1 \<le> n" and "currentPage st = Fin 1"
  shows "page_in_range (paginate_all acts st)
       \<and> totalPages (paginate_all acts st) = totalPages st"
proof -
  from paginate_all_keeps_range [OF assms(1) assms(3) _ assms(2), of acts]
  obtain c' where "currentPage (paginate_all acts st) = Fin c'" "1 \<le> c'" "c' \<le> n"
      "totalPages (paginate_all acts st) = Fin n"
    by auto
  then show ?thesis using assms(1) by (simp add: page_in_range_def)
qed

theorem pagination_stays_in_range_witness:
  "totalPages fetched_state = Fin 3 \<and> (1::int) \<le> 3 \<and> currentPage fetched_state = Fin 1
   \<and> page_in_range (paginate_all [Next, Next, Next, Next, Previous] fetched_state)
   \<and> totalPages (paginate_all [Next, Next, Next, Next, Previous] fetched_state)
       = totalPages fetched_state"
proof -
  have pages: "totalPages fetched_state = Fin 3" by code_simp
  have start: "currentPage fetched_state = Fin 1" by code_simp
  have some: "(1::int) \<le> 3" by simp
  show ?thesis
    using pages start some
      pagination_stays_in_range [OF pages some start, of "[Next, Next, Next, Next, Previous]"]
    by simp
qed

text \<open>
  With \<open>totalPages = 0\<close>, the state after a first fetch that failed, the next-page
  button is enabled and its handler sets \<open>currentPage\<close> to 0.
\<close>

theorem pagination_zero_pages_counterexample:
  "currentPage offline_state = Fin 1 \<and> totalPages offline_state = Fin 0
   \<and> \<not> nextDisabled offline_state
   \<and> currentPage (paginate_all [Next] offline_state) = Fin 0
   \<and> \<not> page_in_range (paginate_all [Next] offline_state)"
  by code_simp

text \<open>
  C3, amended. When the promise of \<open>fetch\<close> or the promise of \<open>response.json()\<close>
  rejects, the \<open>try\<close> block throws before any setter, and \<open>fetchResults\<close> leaves the
  results and the columns of the state before the fetch. Whatever the network answers,
  \<open>fetchResults\<close> returns a state with the loading flag cleared, and whenever the
  \<open>try\<close> block has thrown, the columns are those from before the fetch.
\<close>

theorem rejected_fetch_keeps_display:
  "(outcome = NetworkFailure \<or> outcome = UndecodableBody \<longrightarrow>
        results (snd (fetchResults hs p page outcome st)) = results st
      \<and> columns (snd (fetchResults hs p page outcome st)) = columns st
      \<and> fst (tryBlock hs p outcome (st\<lparr>isLoading := True\<rparr>)) \<noteq> None)
   \<and> (fst (tryBlock hs p outcome (st\<lparr>isLoading := True\<rparr>)) \<noteq> None \<longrightarrow>
        columns (snd (fetchResults hs p page outcome st)) = columns st)
   \<and> isLoading (snd (fetchResults hs p page outcome st)) = False"
proof -
  have rejected: "outcome = NetworkFailure \<or> outcome = UndecodableBody \<longrightarrow>
        results (snd (fetchResults hs p page outcome st)) = results st
      \<and> columns (snd (fetchResults hs p page outcome st)) = columns st
      \<and> fst (tryBlock hs p outcome (st\<lparr>isLoading := True\<rparr>)) \<noteq> None"
    by (auto simp add: fetchResults_def tryBlock_def)
  have thrown: "fst (tryBlock hs p outcome (st\<lparr>isLoading := True\<rparr>)) \<noteq> None \<longrightarrow>
        columns (snd (fetchResults hs p page outcome st)) = columns st"
    using columns_after_throw [of hs p outcome "st\<lparr>isLoading := True\<rparr>"]
    by (simp add: fetchResults_def Let_def)
  have cleared: "isLoading (snd (fetchResults hs p page outcome st)) = False"
    by (simp add: fetchResults_def Let_def)
  from rejected thrown cleared show ?thesis by blast
qed

theorem rejected_fetch_keeps_display_witness:
  "results (snd (fetchResults int_host example_props (Fin 2) NetworkFailure
       (untyped fetched_state))) = results (untyped fetched_state)
   \<and> columns (snd (fetchResults int_host example_props (Fin 2) NetworkFailure
       (untyped fetched_state))) = columns (untyped fetched_state)
   \<and> fst (tryBlock int_host example_props (Resolved (JArray [JNull]) (Some ''25''))
       ((untyped fetched_state)\<lparr>isLoading := True\<rparr>)) \<noteq> None
   \<and> columns (snd (fetchResults int_host example_props (Fin 2)
       (Resolved (JArray [JNull]) (Some ''25'')) (untyped fetched_state)))
       = columns (untyped fetched_state)
   \<and> isLoading (snd (fetchResults int_host example_props (Fin 2)
       (Resolved (JArray [JNull]) (Some ''25'')) (untyped fetched_state))) = False"
proof -
  have thrown: "fst (tryBlock int_host example_props (Resolved (JArray [JNull]) (Some ''25''))
       ((untyped fetched_state)\<lparr>isLoading := True\<rparr>)) \<noteq> None"
    by code_simp
  show ?thesis
    using thrown
      rejected_fetch_keeps_display [of NetworkFailure int_host example_props "Fin 2"
        "untyped fetched_state"]
      rejected_fetch_keeps_display [of "Resolved (JArray [JNull]) (Some ''25'')" int_host
        example_props "Fin 2" "untyped fetched_state"]
    by simp
qed

text \<open>
  A body that decodes to \<open>null\<close>, or to an array that starts with \<open>null\<close>, makes the
  \<open>try\<close> block throw after \<open>setResults\<close>: the error is caught, and the results are no
  longer those from before the fetch.
\<close>

theorem caught_error_after_setResults_counterexample:
  "fst (tryBlock int_host example_props (Resolved JNull (Some ''25''))
       ((untyped fetched_state)\<lparr>isLoading := True\<rparr>)) = Some TypeError
   \<and> results (snd (fetchResults int_host example_props (Fin 2) (Resolved JNull (Some ''25''))
       (untyped fetched_state))) = JNull
   \<and> results (snd (fetchResults int_host example_props (Fin 2) (Resolved JNull (Some ''25''))
       (untyped fetched_state))) \<noteq> results (untyped fetched_state)
   \<and> fst (tryBlock int_host example_props (Resolved (JArray [JNull]) (Some ''25''))
       ((untyped fetched_state)\<lparr>isLoading := True\<rparr>)) = Some TypeError
   \<and> results (snd (fetchResults int_host example_props (Fin 2)
       (Resolved (JArray [JNull]) (Some ''25'')) (untyped fetched_state))) = JArray [JNull]
   \<and> results (snd (fetchResults int_host example_props (Fin 2)
       (Resolved (JArray [JNull]) (Some ''25'')) (untyped fetched_state)))
       \<noteq> results (untyped fetched_state)"
  by code_simp

text \<open>
  C4. After a fetch that resolves with at least one record, the keys of the columns are
  the keys of the first record in their order, every label is the upper-cased key and
  every column is visible; after a fetch that resolves with the empty list the columns
  are those from before the fetch.
\<close>

theorem fetch_derives_columns:
  "map key (columns (snd (fetchResults hs p page (Resolved (JArray (JObject d # ds)) h) st)))
       = object_keys d
   \<and> map label (columns (snd (fetchResults hs p page (Resolved (JArray (JObject d # ds)) h) st)))
       = map toUpperCase (object_keys d)
   \<and> map visible (columns (snd (fetchResults hs p page (Resolved (JArray (JObject d # ds)) h) st)))
       = replicate (length (object_keys d)) True
   \<and> columns (snd (fetchResults hs p page (Resolved (JArray []) h) st)) = columns st"
  by (simp add: fetchResults_def tryBlock_def Let_def comp_def map_replicate_const)

text \<open>
  C5, amended. When sorting is enabled: \<open>handleSort\<close> on the active sort column keeps
  the column and flips the direction, and \<open>handleSort\<close> on any other column makes it the
  active column with direction \<open>asc\<close>, whatever the direction was.
\<close>

theorem handleSort_toggles_when_enabled:
  assumes "isSort p"
  shows "(sortColumn st = Some col \<longrightarrow>
            sortColumn (handleSort lt p col st) = Some col
          \<and> sortDirection (handleSort lt p col st)
              = (case sortDirection st of Asc \<Rightarrow> Desc | Desc \<Rightarrow> Asc))
       \<and> (sortColumn st \<noteq> Some col \<longrightarrow>
            sortColumn (handleSort lt p col st) = Some col
          \<and> sortDirection (handleSort lt p col st) = Asc)"
  using assms by (simp add: handleSort_def Let_def split: direction.split)

theorem handleSort_toggles_when_enabled_witness:
  "isSort example_props
   \<and> sortColumn fetched_state \<noteq> Some ''id''
   \<and> sortColumn (handleSort int_lt example_props ''id'' fetched_state) = Some ''id''
   \<and> sortDirection (handleSort int_lt example_props ''id'' fetched_state) = Asc
   \<and> sortDirection (handleSort int_lt example_props ''id''
        (handleSort int_lt example_props ''id'' fetched_state)) = Desc"
proof -
  have enabled: "isSort example_props" by code_simp
  have fresh: "sortColumn fetched_state \<noteq> Some ''id''" by code_simp
  have first: "sortColumn (handleSort int_lt example_props ''id'' fetched_state) = Some ''id''
      \<and> sortDirection (handleSort int_lt example_props ''id'' fetched_state) = Asc"
    using handleSort_toggles_when_enabled [OF enabled, of fetched_state "''id''" int_lt] fresh
    by simp
  then show ?thesis
    using enabled fresh
      handleSort_toggles_when_enabled [OF enabled,
        of "handleSort int_lt example_props ''id'' fetched_state" "''id''" int_lt]
    by simp
qed

text \<open>
  With sorting disabled, \<open>handleSort\<close> on a column other than the active one does not
  make it the active column.
\<close>

theorem handleSort_disabled_counterexample:
  "sortColumn (initial_state :: int state) \<noteq> Some ''id''
   \<and> sortColumn (handleSort int_lt locked_props ''id'' initial_state) = None"
  by code_simp

text \<open>
  C6, amended. \<open>onDragEnd\<close> leaves the state as it is when the drop has no destination
  or the column toggle is disabled. With the toggle enabled and both indices inside the
  column list, the new list has the same length, holds at the destination index the
  column that was at the source index, and holds the other columns in their old order.
\<close>

theorem onDragEnd_moves_column:
  "(destination r = None \<or> \<not> columnToogle p \<longrightarrow> onDragEnd p r st = Inr st)
   \<and> (columnToogle p \<and> destination r = Some d
        \<and> 0 \<le> index (source r) \<and> index (source r) < int (length (columns st))
        \<and> 0 \<le> index d \<and> index d < int (length (columns st)) \<longrightarrow>
      (\<exists>cs. onDragEnd p r st = Inr (st\<lparr>columns := cs\<rparr>)
          \<and> length cs = length (columns st)
          \<and> cs ! nat (index d) = columns st ! nat (index (source r))
          \<and> without (nat (index d)) cs = without (nat (index (source r))) (columns st)))"
proof -
  have gate: "destination r = None \<or> \<not> columnToogle p \<longrightarrow> onDragEnd p r st = Inr st"
    by (auto simp add: onDragEnd_def split: option.split)
  have move: "\<exists>cs. onDragEnd p r st = Inr (st\<lparr>columns := cs\<rparr>)
          \<and> length cs = length (columns st)
          \<and> cs ! nat (index d) = columns st ! nat (index (source r))
          \<and> without (nat (index d)) cs = without (nat (index (source r))) (columns st)"
    if on: "columnToogle p" and dest: "destination r = Some d"
      and src: "0 \<le> index (source r)" "index (source r) < int (length (columns st))"
      and dst: "0 \<le> index d" "index d < int (length (columns st))"
  proof -
    define xs where "xs = columns st"
    define i where "i = nat (index (source r))"
    define j where "j = nat (index d)"
    define ys where "ys = without i xs"
    have i: "i < length xs" and j: "j < length xs"
      using src dst by (simp_all add: i_def j_def xs_def)
    have start_i: "splice_start (index (source r)) (length xs) = i"
      using src i by (simp add: splice_start_inside i_def)
    have deleted: "splice_delete1 (index (source r)) xs = (Some (xs ! i), ys)"
      using i by (simp add: splice_delete1_def start_i ys_def without_def)
    have len_ys: "length ys = length xs - 1" using i by (simp add: ys_def length_without)
    with j have j_ys: "j \<le> length ys" by simp
    have start_j: "splice_start (index d) (length ys) = j"
      using dst j_ys by (simp add: splice_start_inside j_def)
    have inserted: "splice_insert (index d) (xs ! i) ys = take j ys @ xs ! i # drop j ys"
      by (simp add: splice_insert_def start_j)
    have run: "onDragEnd p r st = Inr (st\<lparr>columns := take j ys @ xs ! i # drop j ys\<rparr>)"
      using on dest deleted inserted by (simp add: onDragEnd_def xs_def)
    have len: "length (take j ys @ xs ! i # drop j ys) = length xs"
      using len_ys i j_ys by simp
    from run len nth_insert [OF j_ys] without_insert [OF j_ys] show ?thesis
      unfolding xs_def [symmetric] i_def [symmetric] j_def [symmetric] ys_def [symmetric]
      by blast
  qed
  from gate move show ?thesis by blast
qed


theorem onDragEnd_moves_column_witness:
  "columnToogle example_props
   \<and> destination \<lparr>source = \<lparr>index = 0\<rparr>, destination = Some \<lparr>index = 2\<rparr>\<rparr> = Some \<lparr>index = 2\<rparr>
   \<and> length (columns fetched_state) = 3
   \<and> (\<exists>cs. onDragEnd example_props \<lparr>source = \<lparr>index = 0\<rparr>, destination = Some \<lparr>index = 2\<rparr>\<rparr>
              fetched_state = Inr (fetched_state\<lparr>columns := cs\<rparr>)
          \<and> length cs = length (columns fetched_state)
          \<and> cs ! 2 = columns fetched_state ! 0
          \<and> without 2 cs = without 0 (columns fetched_state))
   \<and> onDragEnd locked_props \<lparr>source = \<lparr>index = 0\<rparr>, destination = Some \<lparr>index = 2\<rparr>\<rparr>
        fetched_state = Inr fetched_state"
proof -
  have on: "columnToogle example_props" by code_simp
  have off: "\<not> columnToogle locked_props" by code_simp
  have len: "length (columns fetched_state) = 3" by code_simp
  show ?thesis
    using on off len
      onDragEnd_moves_column [of "\<lparr>source = \<lparr>index = 0\<rparr>, destination = Some \<lparr>index = 2\<rparr>\<rparr>"
        example_props fetched_state "\<lparr>index = 2\<rparr>"]
      onDragEnd_moves_column [of "\<lparr>source = \<lparr>index = 0\<rparr>, destination = Some \<lparr>index = 2\<rparr>\<rparr>"
        locked_props fetched_state "\<lparr>index = 2\<rparr>"]
    by simp
qed

text \<open>
  A destination index beyond the end of the list is not a no-op: three columns, the
  first one dropped at index 5, gives the list with the first column moved to the end.
\<close>

theorem onDragEnd_out_of_bounds_counterexample:
  "length (columns fetched_state) = 3
   \<and> onDragEnd example_props \<lparr>source = \<lparr>index = 0\<rparr>, destination = Some \<lparr>index = 5\<rparr>\<rparr>
        fetched_state
      = Inr (fetched_state\<lparr>columns :=
          [\<lparr>key = ''userId'', label = ''USERID'', visible = True\<rparr>,
           \<lparr>key = ''rank'', label = ''RANK'', visible = True\<rparr>,
           \<lparr>key = ''id'', label = ''ID'', visible = True\<rparr>]\<rparr>)
   \<and> onDragEnd example_props \<lparr>source = \<lparr>index = 0\<rparr>, destination = Some \<lparr>index = 5\<rparr>\<rparr>
        fetched_state
      \<noteq> Inr fetched_state"
  by code_simp

text \<open>
  C7, amended. After a fetch that resolves, with a page size other than 0, \<open>totalPages\<close>
  is the quotient of the total count by the page size, rounded up, where the total
  count is what \<open>parseInt\<close> reads from the header \<open>x-total-count\<close>: the number \<open>k\<close> for
  the decimal numeral of \<open>k\<close>, and 0 for an absent or empty header, so that
  \<open>totalPages\<close> is 0 then. With page size 10 the counts 0, 1, 100 and 101 give 0, 1, 10
  and 11 pages.
\<close>

theorem fetch_total_pages:
  assumes "pagePerRecord p \<noteq> 0"
  shows "(parseInt (header_or_zero h) = Fin n \<longrightarrow>
            totalPages (snd (fetchResults hs p page (Resolved data h) st))
              = Fin \<lceil>real_of_int n / real_of_int (pagePerRecord p)\<rceil>)
       \<and> totalPages (snd (fetchResults hs p page (Resolved data (Some (decimal k))) st))
           = Fin \<lceil>real k / real_of_int (pagePerRecord p)\<rceil>
       \<and> totalPages (snd (fetchResults hs p page (Resolved data None) st)) = Fin 0
       \<and> totalPages (snd (fetchResults hs p page (Resolved data (Some [])) st)) = Fin 0
       \<and> (pagePerRecord p = 10 \<longrightarrow>
            totalPages (snd (fetchResults hs p page (Resolved data (Some ''0'')) st)) = Fin 0
          \<and> totalPages (snd (fetchResults hs p page (Resolved data (Some ''1'')) st)) = Fin 1
          \<and> totalPages (snd (fetchResults hs p page (Resolved data (Some ''100'')) st)) = Fin 10
          \<and> totalPages (snd (fetchResults hs p page (Resolved data (Some ''101'')) st)) = Fin 11)"
proof -
  have zero: "parseInt ''0'' = Fin 0" by code_simp
  have one: "parseInt ''1'' = Fin 1" by code_simp
  have hundred: "parseInt ''100'' = Fin 100" by code_simp
  have more: "parseInt ''101'' = Fin 101" by code_simp
  have numeral: "header_or_zero (Some (decimal k)) = decimal k"
    using decimal_digits [of k] by (simp add: header_or_zero_def)
  have parsed: "parseInt (header_or_zero h) = Fin n \<longrightarrow>
      totalPages (snd (fetchResults hs p page (Resolved data h) st))
        = Fin \<lceil>real_of_int n / real_of_int (pagePerRecord p)\<rceil>"
    using assms by (simp add: totalPages_fetch ceiling_divide_eq_div)
  have counted: "totalPages (snd (fetchResults hs p page (Resolved data (Some (decimal k))) st))
      = Fin \<lceil>real k / real_of_int (pagePerRecord p)\<rceil>"
    using assms ceil_div_ceiling [of "pagePerRecord p" "int k"]
    by (simp add: totalPages_fetch numeral parseInt_decimal)
  have absent: "totalPages (snd (fetchResults hs p page (Resolved data None) st)) = Fin 0"
    using assms by (simp add: totalPages_fetch header_or_zero_def zero)
  have empty: "totalPages (snd (fetchResults hs p page (Resolved data (Some [])) st)) = Fin 0"
    using assms by (simp add: totalPages_fetch header_or_zero_def zero)
  have ten: "pagePerRecord p = 10 \<longrightarrow>
      totalPages (snd (fetchResults hs p page (Resolved data (Some ''0'')) st)) = Fin 0
    \<and> totalPages (snd (fetchResults hs p page (Resolved data (Some ''1'')) st)) = Fin 1
    \<and> totalPages (snd (fetchResults hs p page (Resolved data (Some ''100'')) st)) = Fin 10
    \<and> totalPages (snd (fetchResults hs p page (Resolved data (Some ''101'')) st)) = Fin 11"
    by (simp add: totalPages_fetch header_or_zero_def zero one hundred more)
  from parsed counted absent empty ten show ?thesis by blast
qed

theorem fetch_total_pages_witness:
  "pagePerRecord example_props \<noteq> 0
   \<and> parseInt (header_or_zero (Some ''25'')) = Fin 25
   \<and> totalPages (snd (fetchResults int_host example_props (Fin 1) (Resolved example_body (Some ''25''))
        (untyped initial_state))) = Fin 3
   \<and> totalPages (snd (fetchResults int_host example_props (Fin 1) (Resolved example_body None)
        (untyped initial_state))) = Fin 0
   \<and> totalPages (snd (fetchResults int_host example_props (Fin 1) (Resolved example_body (Some ''101''))
        (untyped initial_state))) = Fin 11"
proof -
  have size: "pagePerRecord example_props \<noteq> 0" by code_simp
  have ten: "pagePerRecord example_props = 10" by code_simp
  have count: "parseInt (header_or_zero (Some ''25'')) = Fin 25" by code_simp
  show ?thesis
    using size count
      fetch_total_pages [OF size, where h = "Some ''25''" and n = 25 and hs = int_host
        and page = "Fin 1" and data = example_body and st = "untyped initial_state"]
    by (simp add: ten)
qed

text \<open>
  A header without digits is not read as 0: \<open>parseInt\<close> gives \<open>NaN\<close>, and so does the
  page count.
\<close>

theorem unparseable_header_counterexample:
  "totalPages (snd (fetchResults int_host example_props (Fin 1) (Resolved example_body (Some ''abc''))
     (untyped initial_state))) = NaN"
  by code_simp

text \<open>
  C8. With its capability flag off, each of \<open>handleSort\<close>, \<open>toggleColumnVisibility\<close>,
  \<open>onDragEnd\<close> and \<open>applyFilter\<close> returns the state it was given, without an error and
  without a request; the three that do not read the results do so whatever the slot
  \<open>results\<close> holds.
\<close>

theorem disabled_actions_are_noops:
  "(\<not> isSort p \<longrightarrow> handleSort lt p col st = st)
   \<and> (\<not> columnToogle p \<longrightarrow> toggleColumnVisibility p k st = st \<and> onDragEnd p r st = Inr st)
   \<and> (\<not> columnToogle p \<longrightarrow> toggleColumnVisibility p k raw = raw \<and> onDragEnd p r raw = Inr raw)
   \<and> (\<not> isFilter p \<longrightarrow> applyFilter hs p outcome raw = ([], raw))"
  by (simp add: handleSort_def toggleColumnVisibility_def onDragEnd_def applyFilter_def
      split: option.split)

theorem disabled_actions_are_noops_witness:
  "\<not> isSort locked_props \<and> \<not> columnToogle locked_props \<and> \<not> isFilter locked_props
   \<and> handleSort int_lt locked_props ''id'' fetched_state = fetched_state
   \<and> toggleColumnVisibility locked_props ''id'' fetched_state = fetched_state
   \<and> onDragEnd locked_props \<lparr>source = \<lparr>index = 0\<rparr>, destination = Some \<lparr>index = 1\<rparr>\<rparr>
        fetched_state = Inr fetched_state
   \<and> applyFilter int_host locked_props NetworkFailure (untyped fetched_state)
        = ([], untyped fetched_state)"
proof -
  have off: "\<not> isSort locked_props" "\<not> columnToogle locked_props" "\<not> isFilter locked_props"
    by code_simp+
  show ?thesis
    using off
      disabled_actions_are_noops [where p = locked_props and lt = int_lt and col = "''id''"
        and st = fetched_state and k = "''id''"
        and r = "\<lparr>source = \<lparr>index = 0\<rparr>, destination = Some \<lparr>index = 1\<rparr>\<rparr>"
        and hs = int_host and outcome = NetworkFailure and raw = "untyped fetched_state"]
    by simp
qed

text \<open>
  C9. With filtering enabled, \<open>applyFilter\<close> sets \<open>currentPage\<close> to 1 and requests one
  URL: the endpoint followed by \<open>?_page=1&_limit=\<close> and the page size. The request is
  the same whatever the two filter texts are.
\<close>

theorem applyFilter_requests_page_one:
  assumes "isFilter p"
  shows "fst (applyFilter hs p outcome st)
           = [apiEndpoint p @ ''?_page=1&_limit='' @ int_to_string (pagePerRecord p)]
       \<and> currentPage (snd (applyFilter hs p outcome st)) = Fin 1
       \<and> fst (applyFilter hs p outcome (st\<lparr>titleFilter := t, bodyFilter := b\<rparr>))
           = fst (applyFilter hs p outcome st)"
  using assms
  by (simp add: applyFilter_def fetchResults_def requestUrl_def int_to_string_one Let_def
      currentPage_tryBlock)

theorem applyFilter_requests_page_one_witness:
  "isFilter example_props
   \<and> fst (applyFilter int_host example_props (Resolved example_body (Some ''25''))
        (untyped (fetched_state\<lparr>currentPage := Fin 3\<rparr>))) = [''/api/posts?_page=1&_limit=10'']
   \<and> currentPage (snd (applyFilter int_host example_props (Resolved example_body (Some ''25''))
        (untyped (fetched_state\<lparr>currentPage := Fin 3\<rparr>)))) = Fin 1
   \<and> fst (applyFilter int_host example_props (Resolved example_body (Some ''25''))
        ((untyped (fetched_state\<lparr>currentPage := Fin 3\<rparr>))
           \<lparr>titleFilter := ''qui'', bodyFilter := ''est''\<rparr>))
       = [''/api/posts?_page=1&_limit=10'']"
proof -
  have on: "isFilter example_props" by code_simp
  have url: "apiEndpoint example_props @ ''?_page=1&_limit='' @ int_to_string (pagePerRecord example_props)
      = ''/api/posts?_page=1&_limit=10''" by code_simp
  show ?thesis
    using on url
      applyFilter_requests_page_one [OF on,
        where hs = int_host and outcome = "Resolved example_body (Some ''25'')"
          and st = "untyped (fetched_state\<lparr>currentPage := Fin 3\<rparr>)"
          and t = "''qui''" and b = "''est''"]
    by simp
qed

text \<open>
  C10. \<open>handleSort\<close> leaves a permutation of the records it found, and the same columns,
  page number, page count and filter texts; the page number being the same, the effect
  that fetches does not run after it.
\<close>

theorem handleSort_permutes_page:
  "mset (results (handleSort lt p col st)) = mset (results st)
   \<and> columns (handleSort lt p col st) = columns st
   \<and> currentPage (handleSort lt p col st) = currentPage st
   \<and> totalPages (handleSort lt p col st) = totalPages st
   \<and> titleFilter (handleSort lt p col st) = titleFilter st
   \<and> bodyFilter (handleSort lt p col st) = bodyFilter st
   \<and> fst (pageEffect hs p outcome st (untyped (handleSort lt p col st))) = []"
  by (simp add: handleSort_def pageEffect_def untyped_def with_results_def Let_def
      mset_array_sort)

end
